theory Spec2Isabelle
  imports Complex_Main "HOL-Library.Word"
begin

section \<open>The pool connection manager of ethminer (libpoolprotocols/PoolManager.cpp)\<close>

text \<open>
  A shallow embedding of \<^verbatim>\<open>PoolManager\<close>. The manager's members become the fields of a
  record; every member function becomes a function from the state (and what it reads from
  the pool client and the farm) to either an error or the new state together with the
  list of calls it made on its collaborators, in program order. The collaborators
  themselves (the pool client, the farm, the logger, the failover timer) are not part of
  the file: what the manager reads from them is an argument (\<open>world\<close>), what it asks of
  them is an entry of the call list.
\<close>

subsection \<open>Data\<close>

text \<open>
  \<^verbatim>\<open>unsigned\<close> is a 32-bit word: \<^verbatim>\<open>m_activeConnectionIdx\<close>, \<^verbatim>\<open>m_connectionAttempt\<close>,
  \<^verbatim>\<open>m_maxConnectionAttempts\<close> and the two atomic counters have this type (the constructor
  takes \<^verbatim>\<open>unsigned maxTries\<close>, \<^verbatim>\<open>setActiveConnection\<close> takes \<^verbatim>\<open>unsigned int idx\<close>,
  \<^verbatim>\<open>getConnectionSwitches\<close> returns \<^verbatim>\<open>unsigned\<close>). Increments wrap around at \<open>2 ^ 32\<close>.
  A comparison with \<^verbatim>\<open>m_connections.size()\<close> converts the index to \<^verbatim>\<open>size_t\<close>, so it
  compares \<open>unat\<close> of the index with the length of the list.
\<close>

type_synonym unsigned = "32 word"
type_synonym uint64_t = "64 word"
type_synonym h256 = "256 word"

text \<open>
  Modelled from the spec: the class \<^verbatim>\<open>URI\<close> (PoolURI.h) is not part of the source file. An
  endpoint carries the printable form it was built from, its host, its port and the flag
  \<^verbatim>\<open>IsUnrecoverable()\<close> that the client sets through the pointer it was bound to.
\<close>

record URI =
  uri_str :: string
  Host :: string
  Port :: "16 word"
  IsUnrecoverable :: bool

text \<open>
  Modelled from the spec: \<^verbatim>\<open>URI(":0")\<close>, the sentinel that \<^verbatim>\<open>getActiveConnectionCopy\<close> returns
  when there is no active endpoint (the parser of \<^verbatim>\<open>URI\<close> is not part of the source file).
\<close>

definition URI_sentinel :: URI where
  "URI_sentinel = \<lparr>uri_str = '':0'', Host = [], Port = 0, IsUnrecoverable = False\<rparr>"

record Solution =
  nonce :: uint64_t
  stale :: bool

record WorkPackage =
  header :: h256
  boundary :: h256
  epoch :: int

text \<open>
  The terminal colour macros of the log lines (\<^verbatim>\<open>EthWhite\<close>, \<^verbatim>\<open>EthReset\<close>, ...) are kept as
  names; a log line is the list of its pieces in the order they are streamed.
  \<open>HexNonce n\<close> is \<^verbatim>\<open>toHex(sol.nonce)\<close>, \<open>Abridged h\<close> is \<^verbatim>\<open>wp.header.abridged()\<close> and
  \<open>Num i\<close> is an integer streamed in decimal.
\<close>

datatype colour = EthReset | EthWhite | EthRed | EthYellow | EthLime

datatype piece = Txt string | Esc colour | HexNonce uint64_t | Abridged h256 | Num int

text \<open>
  The calls the manager makes on its collaborators. \<open>lock\<close> and \<open>unlock\<close> are the
  acquisition and the release of \<^verbatim>\<open>m_activeConnectionMutex\<close> (a guard's constructor, and its
  \<^verbatim>\<open>unlock()\<close> or the end of its scope); \<open>farm_setWork None\<close> is \<^verbatim>\<open>g_farm->setWork({})\<close>.
\<close>

datatype call =
    cnote "piece list"
  | cwarn "piece list"
  | lock
  | unlock
  | client_unsetConnection
  | client_setConnection URI
  | client_connect
  | client_disconnect
  | client_submitSolution Solution unsigned
  | client_submitHashrate string
  | farm_stop
  | farm_setWork "WorkPackage option"
  | sleep_for_seconds nat

text \<open>
  What a member function reads from the pool client and from the farm while it runs:
  \<^verbatim>\<open>p_client->isPendingState()\<close>, \<^verbatim>\<open>p_client->isConnected()\<close>, \<^verbatim>\<open>g_farm->isMining()\<close>,
  whether \<^verbatim>\<open>g_farm->work()\<close> is a non-empty work package,
  \<^verbatim>\<open>uint64_t(g_farm->miningProgress().hashRate)\<close>, and \<^verbatim>\<open>p_client->ActiveEndPoint()\<close>.
\<close>

record world =
  isPendingState :: bool
  isConnected :: bool
  isMining :: bool
  farm_has_work :: bool
  hashRate :: uint64_t
  ActiveEndPoint :: string

text \<open>
  The ways a member function can fail: \<^verbatim>\<open>std::out_of_range\<close> thrown by
  \<^verbatim>\<open>std::vector::at\<close>, \<^verbatim>\<open>std::overflow_error\<close> thrown by the 256-bit division on a zero
  divisor, and the undefined behaviour of \<^verbatim>\<open>std::vector::erase\<close> on an iterator past the
  last element.
\<close>

datatype error = out_of_range | overflow_error | undefined_behaviour

text \<open>
  The members of \<^verbatim>\<open>PoolManager\<close> that the modelled functions read or write.
  \<open>m_lastDifficulty\<close> is a \<^verbatim>\<open>double\<close>: a finite double is the rational number it denotes.
\<close>

type_synonym double = rat

record PoolManager =
  m_running :: bool
  m_connections :: "URI list"
  m_activeConnectionIdx :: unsigned
  m_connectionAttempt :: unsigned
  m_maxConnectionAttempts :: unsigned
  m_connectionSwitches :: unsigned
  m_epochChanges :: unsigned
  m_lastBoundary :: h256
  m_lastDifficulty :: double
  m_lastEpoch :: int
  m_hashrateReportingTime :: unsigned
  m_hashrateReportingTimePassed :: unsigned
  m_lastConnectedHost :: string

subsection \<open>The registry\<close>

text \<open>\<^verbatim>\<open>v.erase(v.begin() + i)\<close> for \<open>i < length v\<close>.\<close>

definition erase :: "'a list \<Rightarrow> nat \<Rightarrow> 'a list" where
  "erase xs i = take i xs @ drop (Suc i) xs"

definition addConnection :: "URI \<Rightarrow> PoolManager \<Rightarrow> PoolManager \<times> call list" where
  "addConnection conn s =
     (s\<lparr>m_connections := m_connections s @ [conn]\<rparr>, [lock, unlock])"

definition removeConnection :: "unsigned \<Rightarrow> PoolManager \<Rightarrow> error + PoolManager \<times> call list" where
  "removeConnection idx s =
     (if length (m_connections s) \<le> unat idx then Inl undefined_behaviour
      else
        let s1 = s\<lparr>m_connections := erase (m_connections s) (unat idx)\<rparr>;
            s2 = (if idx < m_activeConnectionIdx s1
                  then s1\<lparr>m_activeConnectionIdx := m_activeConnectionIdx s1 - 1\<rparr>
                  else s1)
        in Inr (s2, [lock, unlock]))"

text \<open>\<^verbatim>\<open>p_client\<close> is the client the constructor was given, never null.\<close>

definition clearConnections :: "world \<Rightarrow> PoolManager \<Rightarrow> PoolManager \<times> call list" where
  "clearConnections w s =
     (s\<lparr>m_connections := []\<rparr>,
      [lock, unlock] @ (if isConnected w then [client_disconnect] else []))"

text \<open>\<^verbatim>\<open>suspendMining\<close>: the calls it makes; it changes no member of the manager.\<close>

definition suspendMining :: "world \<Rightarrow> call list" where
  "suspendMining w =
     (if \<not> isMining w then []
      else if \<not> farm_has_work w then []
      else [farm_setWork None, cnote [Txt ''Suspend mining due connection change...'']])"

definition setActiveConnection :: "world \<Rightarrow> unsigned \<Rightarrow> PoolManager \<Rightarrow> PoolManager \<times> call list" where
  "setActiveConnection w idx s =
     (if idx = m_activeConnectionIdx s then (s, [lock, unlock])
      else
        (s\<lparr>m_connectionSwitches := m_connectionSwitches s + 1,
           m_activeConnectionIdx := idx,
           m_connectionAttempt := 0\<rparr>,
         [lock, unlock, client_disconnect] @ suspendMining w))"

definition getActiveConnectionCopy :: "PoolManager \<Rightarrow> URI" where
  "getActiveConnectionCopy s =
     (if unat (m_activeConnectionIdx s) < length (m_connections s)
      then m_connections s ! unat (m_activeConnectionIdx s)
      else URI_sentinel)"

subsection \<open>The failover timer\<close>

text \<open>
  The error code a timer hands to its completion handler: none when the deadline expired,
  \<^verbatim>\<open>operation_aborted\<close> when the wait was cancelled. \<^verbatim>\<open>!ec\<close> holds for the first only.
\<close>

datatype error_code = no_error | operation_aborted

definition check_failover_timeout :: "error_code \<Rightarrow> PoolManager \<Rightarrow> PoolManager \<times> call list" where
  "check_failover_timeout ec s =
     (if ec = no_error then
        if m_running s then
          if m_activeConnectionIdx s \<noteq> 0 then
            (s\<lparr>m_activeConnectionIdx := 0,
               m_connectionAttempt := 0,
               m_connectionSwitches := m_connectionSwitches s + 1\<rparr>,
             [lock, unlock,
              cnote [Txt ''Failover timeout reached, retrying connection to primary pool''],
              client_disconnect])
          else (s, [lock, unlock])
        else (s, [])
      else (s, []))"

subsection \<open>Strings and numbers\<close>

text \<open>\<^verbatim>\<open>toString\<close> of an unsigned number: its decimal digits.\<close>

definition digit_char :: "nat \<Rightarrow> char" where
  "digit_char d = ''0123456789abcdef'' ! d"

fun toString :: "nat \<Rightarrow> string" where
  "toString n = (if n < 10 then [digit_char n] else toString (n div 10) @ [digit_char (n mod 10)])"

text \<open>\<^verbatim>\<open>ss << std::setw(n) << std::setfill(c) << str\<close>: pads on the left, never truncates.\<close>

definition setw_setfill :: "nat \<Rightarrow> char \<Rightarrow> string \<Rightarrow> string" where
  "setw_setfill n c str = replicate (n - length str) c @ str"

text \<open>
  Modelled from the spec: \<^verbatim>\<open>toCompactBigEndian\<close> and \<^verbatim>\<open>toHex\<close> (libdevcore/CommonData.h) are
  not part of the source file. \<^verbatim>\<open>toCompactBigEndian(v, min)\<close> is the big-endian byte string of
  \<open>v\<close> without leading zero bytes, but of at least \<open>min\<close> bytes; \<^verbatim>\<open>toHex\<close> writes every byte
  as two lowercase hexadecimal digits.
\<close>

fun byte_length :: "nat \<Rightarrow> nat" where
  "byte_length v = (if v = 0 then 0 else Suc (byte_length (v div 256)))"

primrec toBigEndian :: "nat \<Rightarrow> nat \<Rightarrow> 8 word list" where
  "toBigEndian 0 v = []"
| "toBigEndian (Suc n) v = toBigEndian n (v div 256) @ [of_nat (v mod 256)]"

definition toCompactBigEndian :: "uint64_t \<Rightarrow> nat \<Rightarrow> 8 word list" where
  "toCompactBigEndian v m = toBigEndian (max m (byte_length (unat v))) (unat v)"

definition toHex :: "8 word list \<Rightarrow> string" where
  "toHex bs = concat (map (\<lambda>b. [digit_char (unat b div 16), digit_char (unat b mod 16)]) bs)"

subsection \<open>Doubles\<close>

text \<open>
  The arithmetic of \<^verbatim>\<open>double\<close> (IEEE 754 binary64, rounding to nearest, ties to even) on
  the rationals that finite doubles denote. \<open>round_binary64 q\<close> is the double nearest to
  \<open>q\<close>: a significand of 53 bits at the exponent of \<open>q\<close>, and the fixed exponent \<open>- 1074\<close>
  below the normal range. Overflow to infinity is not modelled: every number rounded in
  this file is at most \<open>2 ^ 256\<close>. The conversion of a 256-bit integer to \<^verbatim>\<open>double\<close> is
  the work of the multiprecision library; it is taken as the nearest double, which for an
  integer below \<open>2 ^ 53\<close> is the integer itself.
\<close>

fun bit_length :: "int \<Rightarrow> nat" where
  "bit_length n = (if n \<le> 0 then 0 else Suc (bit_length (n div 2)))"

definition round_half_even :: "rat \<Rightarrow> int" where
  "round_half_even q =
     (let f = \<lfloor>q\<rfloor>; r = q - of_int f
      in if r < 1 / 2 then f else if 1 / 2 < r then f + 1 else if even f then f else f + 1)"

text \<open>\<open>ilog2 q\<close> is the exponent \<open>d\<close> with \<open>2 powi d \<le> q < 2 powi (d + 1)\<close>, for \<open>0 < q\<close>.\<close>

definition ilog2 :: "rat \<Rightarrow> int" where
  "ilog2 q =
     (let d = int (bit_length (fst (quotient_of q))) - int (bit_length (snd (quotient_of q)))
      in if 2 powi d \<le> q then d else d - 1)"

definition round_binary64 :: "rat \<Rightarrow> double" where
  "round_binary64 q =
     (if q = 0 then 0
      else let e = max (ilog2 \<bar>q\<bar> - 52) (- 1074)
           in of_int (round_half_even (q / 2 powi e)) * 2 powi e)"

text \<open>\<^verbatim>\<open>double(n)\<close> for a 256-bit unsigned \<open>n\<close>, and the division of two doubles.\<close>

definition double_of_uint256 :: "nat \<Rightarrow> double" where
  "double_of_uint256 n = round_binary64 (of_nat n)"

definition fdiv :: "double \<Rightarrow> double \<Rightarrow> double" where
  "fdiv x y = round_binary64 (x / y)"

text \<open>
  \<^verbatim>\<open>ss << fixed << setprecision(2) << x\<close> for a double \<open>x\<close>: the exact value of \<open>x\<close> rounded
  to two decimals (ties to even), the integer part in decimal, a point, two digits.
\<close>

definition fixed_setprecision2 :: "double \<Rightarrow> string" where
  "fixed_setprecision2 x =
     (let n = nat (round_half_even (\<bar>x\<bar> * 100))
      in (if x < 0 then ''-'' else []) @ toString (n div 100) @ ''.'' @
         [digit_char (n mod 100 div 10), digit_char (n mod 10)])"

subsection \<open>The event handlers\<close>

text \<open>The dividend of the difficulty: \<^verbatim>\<open>0xffff\<close> followed by 60 hexadecimal zeros.\<close>

definition dividend :: nat where
  "dividend = 0xffff000000000000000000000000000000000000000000000000000000000000"

text \<open>
  The handler of \<^verbatim>\<open>onWorkReceived\<close>. The divisor is the boundary read back from its 64
  hexadecimal digits, that is, the boundary as an unsigned number; the 256-bit division
  throws on a zero divisor, after \<^verbatim>\<open>m_lastBoundary\<close> was written.
\<close>

definition onWorkReceived :: "world \<Rightarrow> WorkPackage \<Rightarrow> PoolManager \<Rightarrow> error + PoolManager \<times> call list" where
  "onWorkReceived w wp s =
     (let job = cnote [Txt ''Job: '', Esc EthWhite, Txt ''#'', Abridged (header wp), Esc EthReset,
                       Txt '' '', Txt (m_lastConnectedHost s), Txt (ActiveEndPoint w)];
          r1 = (if boundary wp \<noteq> m_lastBoundary s then
                  let s1 = s\<lparr>m_lastBoundary := boundary wp\<rparr>;
                      divisor = unat (m_lastBoundary s1)
                  in if divisor = 0 then Inl overflow_error
                     else
                       let s2 = s1\<lparr>m_lastDifficulty := double_of_uint256 (dividend div divisor)\<rparr>;
                           ss = fixed_setprecision2 (fdiv (m_lastDifficulty s2) 1000000000) @ ''K megahash''
                       in Inr (s2, [job, cnote [Txt ''Pool difficulty: '', Esc EthWhite, Txt ss, Esc EthReset]])
                else Inr (s, [job]))
      in case r1 of
           Inl e \<Rightarrow> Inl e
         | Inr (s3, c3) \<Rightarrow>
             if epoch wp \<noteq> m_lastEpoch s3 then
               Inr (s3\<lparr>m_lastEpoch := epoch wp, m_epochChanges := m_epochChanges s3 + 1\<rparr>,
                    c3 @ [cnote [Txt ''New epoch '', Esc EthWhite, Num (epoch wp), Esc EthReset],
                          farm_setWork (Some wp)])
             else Inr (s3, c3 @ [farm_setWork (Some wp)]))"

text \<open>The handler of \<^verbatim>\<open>onSolutionFound\<close>: the calls it makes and the value it returns.\<close>

definition onSolutionFound :: "world \<Rightarrow> Solution \<Rightarrow> unsigned \<Rightarrow> call list \<times> bool" where
  "onSolutionFound w sol miner_index =
     (if isConnected w then
        ([if stale sol
          then cwarn [Txt ''Stale solution: '', Esc EthWhite, Txt ''0x'', HexNonce (nonce sol), Esc EthReset]
          else cnote [Txt ''Solution: '', Esc EthWhite, Txt ''0x'', HexNonce (nonce sol), Esc EthReset],
          client_submitSolution sol miner_index],
         False)
      else
        ([cnote [Esc EthRed, Txt ''Solution 0x'', HexNonce (nonce sol),
                 Txt '' wasted. Waiting for connection...'']],
         False))"

subsection \<open>The supervisor loop\<close>

text \<open>
  The first part of a tick that finds the client neither pending nor connected, under
  the registry lock: an unrecoverable active endpoint is discarded, an endpoint that used
  up its attempts is left for the next one. \<^verbatim>\<open>m_connections.at(i)\<close> throws when \<open>i\<close> is not
  an index of the registry.
\<close>

definition wrap_activeConnectionIdx :: "PoolManager \<Rightarrow> PoolManager" where
  "wrap_activeConnectionIdx s =
     (if length (m_connections s) \<le> unat (m_activeConnectionIdx s)
      then s\<lparr>m_activeConnectionIdx := 0\<rparr> else s)"

definition discard_or_rotate :: "PoolManager \<Rightarrow> error + PoolManager \<times> call list" where
  "discard_or_rotate s =
     (if length (m_connections s) \<le> unat (m_activeConnectionIdx s) then Inl out_of_range
      else if IsUnrecoverable (m_connections s ! unat (m_activeConnectionIdx s)) then
        let s1 = s\<lparr>m_connections := erase (m_connections s) (unat (m_activeConnectionIdx s)),
                   m_connectionAttempt := 0\<rparr>;
            s2 = wrap_activeConnectionIdx s1
        in Inr (s2\<lparr>m_connectionSwitches := m_connectionSwitches s2 + 1\<rparr>,
                [client_unsetConnection])
      else if m_maxConnectionAttempts s \<le> m_connectionAttempt s then
        let s1 = s\<lparr>m_connectionAttempt := 0,
                   m_activeConnectionIdx := m_activeConnectionIdx s + 1\<rparr>;
            s2 = wrap_activeConnectionIdx s1
        in Inr (s2\<lparr>m_connectionSwitches := m_connectionSwitches s2 + 1\<rparr>, [])
      else Inr (s, []))"

text \<open>
  \<^verbatim>\<open>h[0] != '0' ? h : h.substr(1)\<close>; on the empty string \<^verbatim>\<open>h[0]\<close> is the terminating zero
  character, which is not the digit.
\<close>

definition strip_leading_zero :: "string \<Rightarrow> string" where
  "strip_leading_zero h = (case h of [] \<Rightarrow> h | c # cs \<Rightarrow> if c \<noteq> CHR ''0'' then h else cs)"

definition hashrate_string :: "uint64_t \<Rightarrow> string" where
  "hashrate_string v =
     (let h = toHex (toCompactBigEndian v 1);
          res = strip_leading_zero h
      in ''0x'' @ setw_setfill 64 (CHR ''0'') res)"

text \<open>
  The end of every tick that does not leave the loop: the hash rate is reported when the
  interval has passed, and the thread sleeps for a second.
\<close>

definition hashrate_reporting :: "world \<Rightarrow> PoolManager \<Rightarrow> PoolManager \<times> call list" where
  "hashrate_reporting w s =
     (let s1 = s\<lparr>m_hashrateReportingTimePassed := m_hashrateReportingTimePassed s + 1\<rparr>
      in if m_hashrateReportingTime s1 < m_hashrateReportingTimePassed s1
         then (s1\<lparr>m_hashrateReportingTimePassed := 0\<rparr>,
               [client_submitHashrate (hashrate_string (hashRate w)), sleep_for_seconds 1])
         else (s1, [sleep_for_seconds 1]))"

text \<open>
  The second part of such a tick: either the client is bound to the active endpoint and
  asked to connect, or the loop gives up. The flag returned says whether the tick goes on
  to the hash rate report (\<open>True\<close>) or leaves by \<^verbatim>\<open>continue\<close> with \<^verbatim>\<open>m_running\<close> cleared.
\<close>

definition no_more_connections :: "world \<Rightarrow> PoolManager \<Rightarrow> PoolManager \<times> call list" where
  "no_more_connections w s =
     (s\<lparr>m_running := False\<rparr>,
      [unlock, cnote [Txt ''No more connections to try. Exiting...'']] @
      (if isMining w then [cnote [Txt ''Shutting down miners...''], farm_stop] else []))"

definition connect_or_exit :: "world \<Rightarrow> PoolManager \<Rightarrow> error + (PoolManager \<times> call list) \<times> bool" where
  "connect_or_exit w s =
     (if m_connections s \<noteq> [] then
        if length (m_connections s) \<le> unat (m_activeConnectionIdx s) then Inl out_of_range
        else
          let u = m_connections s ! unat (m_activeConnectionIdx s) in
          if Host u \<noteq> ''exit'' then
            Inr ((s\<lparr>m_connectionAttempt := m_connectionAttempt s + 1\<rparr>,
                  [client_setConnection u,
                   cnote [Txt ''Selected pool '', Txt (Host u @ '':'' @ toString (unat (Port u)))],
                   unlock,
                   client_connect]),
                 True)
          else Inr (no_more_connections w s, False)
      else Inr (no_more_connections w s, False))"

text \<open>One iteration of the loop body: the state after it and the calls it made.\<close>

definition tick :: "world \<Rightarrow> PoolManager \<Rightarrow> error + PoolManager \<times> call list" where
  "tick w s =
     (if \<not> isPendingState w \<and> \<not> isConnected w then
        case discard_or_rotate s of
          Inl e \<Rightarrow> Inl e
        | Inr (s1, c1) \<Rightarrow>
            (case connect_or_exit w s1 of
               Inl e \<Rightarrow> Inl e
             | Inr ((s2, c2), go_on) \<Rightarrow>
                 if go_on then
                   Inr (fst (hashrate_reporting w s2),
                        suspendMining w @ [lock] @ c1 @ c2 @ snd (hashrate_reporting w s2))
                 else Inr (s2, suspendMining w @ [lock] @ c1 @ c2))
      else Inr (hashrate_reporting w s))"

text \<open>
  \<^verbatim>\<open>workLoop\<close>: the loop runs while \<^verbatim>\<open>m_running\<close> holds. Each iteration reads the client and
  the farm anew, so the loop takes the list of what the successive iterations read and
  stops when the list is used up, when \<^verbatim>\<open>m_running\<close> is cleared, or at an exception.
\<close>

fun workLoop :: "world list \<Rightarrow> PoolManager \<Rightarrow> error + PoolManager \<times> call list" where
  "workLoop [] s = Inr (s, [])"
| "workLoop (w # ws) s =
     (if m_running s then
        case tick w s of
          Inl e \<Rightarrow> Inl e
        | Inr (s1, c1) \<Rightarrow>
            (case workLoop ws s1 of
               Inl e \<Rightarrow> Inl e
             | Inr (s2, c2) \<Rightarrow> Inr (s2, c1 @ c2))
      else Inr (s, []))"

subsection \<open>The life cycle\<close>

text \<open>
  Modelled from the spec: the initial values of the members (PoolManager.h is not part of
  the source file): not running, an empty registry, every counter zero. The constructor
  sets \<^verbatim>\<open>m_maxConnectionAttempts\<close>; the reporting interval is an argument here.
\<close>

definition PoolManager_new :: "unsigned \<Rightarrow> unsigned \<Rightarrow> PoolManager" where
  "PoolManager_new maxTries reportingTime =
     \<lparr>m_running = False, m_connections = [], m_activeConnectionIdx = 0,
      m_connectionAttempt = 0, m_maxConnectionAttempts = maxTries,
      m_connectionSwitches = 0, m_epochChanges = 0, m_lastBoundary = 0,
      m_lastDifficulty = 0, m_lastEpoch = 0, m_hashrateReportingTime = reportingTime,
      m_hashrateReportingTimePassed = 0, m_lastConnectedHost = []\<rparr>"

text \<open>\<^verbatim>\<open>start\<close>: the loop is started when there is an endpoint.\<close>

definition start :: "PoolManager \<Rightarrow> PoolManager \<times> call list" where
  "start s =
     (if 0 < length (m_connections s)
      then (s\<lparr>m_running := True\<rparr>, [lock, unlock])
      else (s, [lock, cwarn [Txt ''Manager has no connections defined!''], unlock]))"

subsection \<open>Concrete managers and observations\<close>

text \<open>
  Two endpoints \<open>A\<close> and \<open>B\<close>, a manager with three attempts per endpoint that was given
  \<open>A\<close> and \<open>B\<close> and started, and two observations of the collaborators: the client
  disconnected while the farm mines, and the client connected.
\<close>

definition uri_A :: URI where
  "uri_A = \<lparr>uri_str = ''stratum+tcp://a.example:4444'', Host = ''a.example'', Port = 4444,
            IsUnrecoverable = False\<rparr>"

definition uri_B :: URI where
  "uri_B = \<lparr>uri_str = ''stratum+tcp://b.example:4444'', Host = ''b.example'', Port = 4444,
            IsUnrecoverable = False\<rparr>"

definition manager_AB :: PoolManager where
  "manager_AB =
     fst (start (fst (addConnection uri_B (fst (addConnection uri_A (PoolManager_new 3 60))))))"

definition world_down :: world where
  "world_down = \<lparr>isPendingState = False, isConnected = False, isMining = True,
                 farm_has_work = True, hashRate = 0x1234, ActiveEndPoint = []\<rparr>"

definition world_up :: world where
  "world_up = \<lparr>isPendingState = False, isConnected = True, isMining = True,
               farm_has_work = True, hashRate = 0x1234, ActiveEndPoint = []\<rparr>"

text \<open>Whether a call submits a solution to the client.\<close>

fun is_submitSolution :: "call \<Rightarrow> bool" where
  "is_submitSolution (client_submitSolution sol i) = True"
| "is_submitSolution c = False"

text \<open>The manager after the operator switched it to \<open>B\<close>, and the manager stopped.\<close>

definition manager_on_B :: PoolManager where
  "manager_on_B = fst (setActiveConnection world_up 1 manager_AB)"

definition manager_stopped :: PoolManager where
  "manager_stopped = manager_on_B\<lparr>m_running := False\<rparr>"

definition solution_1 :: Solution where
  "solution_1 = \<lparr>nonce = 0xdeadbeef, stale = False\<rparr>"

text \<open>
  The endpoint \<open>A\<close> after the client marked it unrecoverable; the running manager whose
  active endpoint \<open>A\<close> became unrecoverable after two attempts, with \<open>B\<close> behind it and
  alone; and the manager that was given \<open>A\<close>, started, and then had its registry cleared.
\<close>

definition uri_A_dead :: URI where
  "uri_A_dead = uri_A\<lparr>IsUnrecoverable := True\<rparr>"

definition manager_dead_A :: PoolManager where
  "manager_dead_A = manager_AB\<lparr>m_connections := [uri_A_dead, uri_B], m_connectionAttempt := 2\<rparr>"

definition manager_only_dead_A :: PoolManager where
  "manager_only_dead_A = manager_AB\<lparr>m_connections := [uri_A_dead], m_connectionAttempt := 2\<rparr>"

definition manager_cleared :: PoolManager where
  "manager_cleared =
     fst (clearConnections world_up (fst (start (fst (addConnection uri_A (PoolManager_new 3 60))))))"

text \<open>
  The boundary of difficulty 1, a work package that carries it, and a work package with
  the boundary zero.
\<close>

definition boundary_1 :: h256 where
  "boundary_1 = 0x00000000ffff0000000000000000000000000000000000000000000000000000"

definition work_1 :: WorkPackage where
  "work_1 = \<lparr>header = 0x1f, boundary = boundary_1, epoch = 0\<rparr>"

definition work_0 :: WorkPackage where
  "work_0 = \<lparr>header = 0x2f, boundary = 0, epoch = 0\<rparr>"

subsection \<open>Reading hexadecimal digits\<close>

text \<open>
  The number that a string of lowercase hexadecimal digits denotes, most significant
  digit first: \<open>hexval c\<close> is the position of \<open>c\<close> among the sixteen digits.
\<close>

definition hexval :: "char \<Rightarrow> nat" where
  "hexval c = length (takeWhile (\<lambda>d. d \<noteq> c) ''0123456789abcdef'')"

definition hex_value :: "string \<Rightarrow> nat" where
  "hex_value ds = foldl (\<lambda>a c. 16 * a + hexval c) 0 ds"

section \<open>Properties\<close>

declare toString.simps [simp del]
declare byte_length.simps [simp del]
declare bit_length.simps [simp del]

lemmas tick_defs = tick_def discard_or_rotate_def wrap_activeConnectionIdx_def
  connect_or_exit_def no_more_connections_def hashrate_reporting_def suspendMining_def

subsection \<open>The concrete managers\<close>

lemma manager_AB_eq:
  "manager_AB = (PoolManager_new 3 60)\<lparr>m_connections := [uri_A, uri_B], m_running := True\<rparr>"
  by (simp add: manager_AB_def start_def addConnection_def PoolManager_new_def)

lemma manager_on_B_eq:
  "manager_on_B =
     (PoolManager_new 3 60)\<lparr>m_connections := [uri_A, uri_B], m_running := True,
        m_activeConnectionIdx := 1, m_connectionSwitches := 1\<rparr>"
  by (simp add: manager_on_B_def setActiveConnection_def manager_AB_eq PoolManager_new_def)

subsection \<open>Switching the active endpoint by hand\<close>

text \<open>
  C9: \<^verbatim>\<open>setActiveConnection(i)\<close> with \<open>i\<close> the current active index changes no member and
  makes no call but taking and releasing the lock. With another \<open>i\<close> it sets the active
  index to \<open>i\<close>, resets the attempt counter to 0, adds one to the switch counter (a
  32-bit counter, the addition wraps) and, after the lock is released, asks the client to
  disconnect and suspends mining.
\<close>

theorem setActiveConnection_effect:
  "(i = m_activeConnectionIdx s \<longrightarrow> setActiveConnection w i s = (s, [lock, unlock])) \<and>
   (i \<noteq> m_activeConnectionIdx s \<longrightarrow>
      setActiveConnection w i s =
        (s\<lparr>m_activeConnectionIdx := i, m_connectionAttempt := 0,
           m_connectionSwitches := m_connectionSwitches s + 1\<rparr>,
         [lock, unlock, client_disconnect] @ suspendMining w))"
  by (simp add: setActiveConnection_def)

theorem setActiveConnection_effect_witness:
  "setActiveConnection world_up 0 manager_AB = (manager_AB, [lock, unlock]) \<and>
   setActiveConnection world_up 1 manager_AB =
     (manager_AB\<lparr>m_activeConnectionIdx := 1, m_connectionAttempt := 0, m_connectionSwitches := 1\<rparr>,
      [lock, unlock, client_disconnect, farm_setWork None,
       cnote [Txt ''Suspend mining due connection change...'']])"
  using setActiveConnection_effect [of 0 manager_AB world_up]
    setActiveConnection_effect [of 1 manager_AB world_up]
  by (simp add: manager_AB_eq PoolManager_new_def suspendMining_def world_up_def)

text \<open>
  C10: \<^verbatim>\<open>setActiveConnection\<close> does not check its index. On a non-empty registry, an index
  \<open>i\<close> at or past the end that differs from the active one becomes the active index, the
  registry is unchanged, and \<^verbatim>\<open>getActiveConnectionCopy\<close> then returns the sentinel \<open>:0\<close>.
  The sentinel is returned whenever the active index is not an index of the registry.
\<close>

theorem setActiveConnection_unchecked:
  "(m_connections s \<noteq> [] \<and> length (m_connections s) \<le> unat i \<and> i \<noteq> m_activeConnectionIdx s \<longrightarrow>
      m_activeConnectionIdx (fst (setActiveConnection w i s)) = i \<and>
      m_connections (fst (setActiveConnection w i s)) = m_connections s \<and>
      getActiveConnectionCopy (fst (setActiveConnection w i s)) = URI_sentinel) \<and>
   (length (m_connections s) \<le> unat (m_activeConnectionIdx s) \<longrightarrow>
      getActiveConnectionCopy s = URI_sentinel) \<and>
   uri_str URI_sentinel = '':0''"
  by (simp add: setActiveConnection_def getActiveConnectionCopy_def URI_sentinel_def)

theorem setActiveConnection_unchecked_witness:
  "m_connections manager_AB = [uri_A, uri_B] \<and>
   m_activeConnectionIdx manager_AB = 0 \<and>
   m_activeConnectionIdx (fst (setActiveConnection world_up 7 manager_AB)) = 7 \<and>
   m_connections (fst (setActiveConnection world_up 7 manager_AB)) = [uri_A, uri_B] \<and>
   getActiveConnectionCopy (fst (setActiveConnection world_up 7 manager_AB)) = URI_sentinel"
  using setActiveConnection_unchecked [of manager_AB 7 world_up]
  by (simp add: manager_AB_eq PoolManager_new_def)

subsection \<open>The failover timer\<close>

text \<open>
  C6: when the failover timer expires without an error while the manager runs and the
  active index is not 0, the active index and the attempt counter are set to 0, the
  switch counter grows by one and, after the lock is released, the client is asked to
  disconnect. When the wait was cancelled, or the manager does not run, or the active index
  is 0, no member changes and no disconnect is requested.
\<close>

theorem check_failover_timeout_effect:
  "(ec = no_error \<and> m_running s \<and> m_activeConnectionIdx s \<noteq> 0 \<longrightarrow>
      check_failover_timeout ec s =
        (s\<lparr>m_activeConnectionIdx := 0, m_connectionAttempt := 0,
           m_connectionSwitches := m_connectionSwitches s + 1\<rparr>,
         [lock, unlock,
          cnote [Txt ''Failover timeout reached, retrying connection to primary pool''],
          client_disconnect])) \<and>
   (ec = operation_aborted \<or> \<not> m_running s \<or> m_activeConnectionIdx s = 0 \<longrightarrow>
      fst (check_failover_timeout ec s) = s \<and>
      client_disconnect \<notin> set (snd (check_failover_timeout ec s)))"
  by (auto simp add: check_failover_timeout_def)

theorem check_failover_timeout_effect_witness:
  "check_failover_timeout no_error manager_on_B =
     (manager_on_B\<lparr>m_activeConnectionIdx := 0, m_connectionAttempt := 0, m_connectionSwitches := 2\<rparr>,
      [lock, unlock,
       cnote [Txt ''Failover timeout reached, retrying connection to primary pool''],
       client_disconnect]) \<and>
   fst (check_failover_timeout operation_aborted manager_on_B) = manager_on_B \<and>
   client_disconnect \<notin> set (snd (check_failover_timeout operation_aborted manager_on_B)) \<and>
   fst (check_failover_timeout no_error manager_stopped) = manager_stopped \<and>
   client_disconnect \<notin> set (snd (check_failover_timeout no_error manager_stopped)) \<and>
   fst (check_failover_timeout no_error manager_AB) = manager_AB \<and>
   client_disconnect \<notin> set (snd (check_failover_timeout no_error manager_AB))"
  using check_failover_timeout_effect [of no_error manager_on_B]
    check_failover_timeout_effect [of operation_aborted manager_on_B]
    check_failover_timeout_effect [of no_error manager_stopped]
    check_failover_timeout_effect [of no_error manager_AB]
  by (simp add: manager_on_B_eq manager_stopped_def manager_AB_eq PoolManager_new_def)

subsection \<open>Solutions\<close>

text \<open>
  C7: the handler of a solution found by the farm submits the solution to the client if
  and only if the client is connected; when it is not, the only call is the log line that
  says the solution is wasted (nothing is kept for later); in both cases the handler
  returns false.
\<close>

theorem onSolutionFound_effect:
  "(list_ex is_submitSolution (fst (onSolutionFound w sol i)) = isConnected w) \<and>
   (isConnected w \<longrightarrow>
      filter is_submitSolution (fst (onSolutionFound w sol i)) = [client_submitSolution sol i]) \<and>
   (\<not> isConnected w \<longrightarrow>
      fst (onSolutionFound w sol i) =
        [cnote [Esc EthRed, Txt ''Solution 0x'', HexNonce (nonce sol),
                Txt '' wasted. Waiting for connection...'']]) \<and>
   snd (onSolutionFound w sol i) = False"
  by (simp add: onSolutionFound_def)

theorem onSolutionFound_effect_witness:
  "fst (onSolutionFound world_up solution_1 0) =
     [cnote [Txt ''Solution: '', Esc EthWhite, Txt ''0x'', HexNonce 0xdeadbeef, Esc EthReset],
      client_submitSolution solution_1 0] \<and>
   fst (onSolutionFound world_down solution_1 0) =
     [cnote [Esc EthRed, Txt ''Solution 0x'', HexNonce 0xdeadbeef,
             Txt '' wasted. Waiting for connection...'']] \<and>
   snd (onSolutionFound world_up solution_1 0) = False \<and>
   snd (onSolutionFound world_down solution_1 0) = False"
  using onSolutionFound_effect [of world_up solution_1 0]
    onSolutionFound_effect [of world_down solution_1 0]
  by (simp add: onSolutionFound_def world_up_def world_down_def solution_1_def)

subsection \<open>The registry and the active index\<close>

lemma length_erase: "i < length xs \<Longrightarrow> length (erase xs i) = length xs - 1"
  by (simp add: erase_def)

text \<open>
  C1: a mutation of the registry should leave the active index inside a non-empty
  registry. \<^verbatim>\<open>removeConnection\<close> does not: with the endpoints \<open>A\<close> and \<open>B\<close> and the active
  index 1, removing the endpoint 1 leaves the registry \<open>[A]\<close> with the active index still 1,
  and the next tick that finds the client disconnected fails in \<^verbatim>\<open>m_connections.at(1)\<close>.
\<close>

theorem removeConnection_active_last:
  "m_connections manager_on_B = [uri_A, uri_B] \<and>
   m_activeConnectionIdx manager_on_B = 1 \<and>
   removeConnection 1 manager_on_B = Inr (manager_on_B\<lparr>m_connections := [uri_A]\<rparr>, [lock, unlock]) \<and>
   m_activeConnectionIdx (manager_on_B\<lparr>m_connections := [uri_A]\<rparr>) = 1 \<and>
   tick world_down (manager_on_B\<lparr>m_connections := [uri_A]\<rparr>) = Inl out_of_range"
  by (simp add: manager_on_B_eq PoolManager_new_def removeConnection_def erase_def tick_def
      discard_or_rotate_def world_down_def)

subsection \<open>The supervisor loop\<close>

text \<open>
  C4: a tick should never fail. It does on an empty registry: after the manager was given
  \<open>A\<close> and started, and its registry was cleared, a tick that finds the client disconnected
  fails in \<^verbatim>\<open>m_connections.at(0)\<close>, before the test for an empty registry is reached; the
  exception leaves \<^verbatim>\<open>workLoop\<close>.
\<close>

theorem tick_empty_registry:
  "m_running manager_cleared \<and>
   m_connections manager_cleared = [] \<and>
   tick world_down manager_cleared = Inl out_of_range \<and>
   workLoop [world_down] manager_cleared = Inl out_of_range"
  by (simp add: manager_cleared_def clearConnections_def start_def addConnection_def
      PoolManager_new_def tick_def discard_or_rotate_def world_down_def)

lemma discard_unrecoverable:
  assumes "unat (m_activeConnectionIdx s) < length (m_connections s)"
    and "IsUnrecoverable (m_connections s ! unat (m_activeConnectionIdx s))"
  shows "discard_or_rotate s =
     Inr (s\<lparr>m_connections := erase (m_connections s) (unat (m_activeConnectionIdx s)),
            m_connectionAttempt := 0,
            m_activeConnectionIdx :=
              (if Suc (unat (m_activeConnectionIdx s)) < length (m_connections s)
               then m_activeConnectionIdx s else 0),
            m_connectionSwitches := m_connectionSwitches s + 1\<rparr>,
          [client_unsetConnection])"
  using assms
  by (auto simp add: discard_or_rotate_def wrap_activeConnectionIdx_def Let_def length_erase)

lemma workLoop_stops:
  assumes "m_running s" and "tick w s = Inr (s', c)" and "\<not> m_running s'"
  shows "workLoop (w # ws) s = Inr (s', c)"
  using assms by (cases ws) simp_all

text \<open>
  C2: on a tick where the client is neither pending nor connected and the active endpoint
  is marked unrecoverable, the client's binding is cleared and the endpoint is erased from
  the registry (whatever its index), the attempt counter is set to 0, the active index is
  set to 0 if it is no longer an index of the registry and kept otherwise, and the switch
  counter grows by one (the state \<open>s1\<close>; no other member changes). The tick goes on from
  that state, and the registry, the active index and the switch counter are those at its
  end. If the registry is empty after the erasure, the tick stops the farm when it mines,
  clears \<^verbatim>\<open>m_running\<close>, and \<^verbatim>\<open>workLoop\<close> ends with it.
\<close>

theorem tick_discards_unrecoverable:
  assumes "\<not> isPendingState w" and "\<not> isConnected w"
    and "unat (m_activeConnectionIdx s) < length (m_connections s)"
    and "IsUnrecoverable (m_connections s ! unat (m_activeConnectionIdx s))"
  shows "let conns = erase (m_connections s) (unat (m_activeConnectionIdx s));
       s1 = s\<lparr>m_connections := conns,
              m_connectionAttempt := 0,
              m_activeConnectionIdx :=
                (if length conns \<le> unat (m_activeConnectionIdx s) then 0
                 else m_activeConnectionIdx s),
              m_connectionSwitches := m_connectionSwitches s + 1\<rparr>
     in length conns = length (m_connections s) - 1 \<and>
        discard_or_rotate s = Inr (s1, [client_unsetConnection]) \<and>
        (\<exists>s' c. tick w s = Inr (s', suspendMining w @ [lock, client_unsetConnection] @ c) \<and>
           m_connections s' = conns \<and>
           m_activeConnectionIdx s' = m_activeConnectionIdx s1 \<and>
           m_connectionSwitches s' = m_connectionSwitches s + 1) \<and>
        (conns = [] \<longrightarrow>
           tick w s =
             Inr (s1\<lparr>m_running := False\<rparr>,
                  suspendMining w @ [lock, client_unsetConnection, unlock,
                    cnote [Txt ''No more connections to try. Exiting...'']] @
                  (if isMining w then [cnote [Txt ''Shutting down miners...''], farm_stop] else [])) \<and>
           (m_running s \<longrightarrow> workLoop (w # ws) s = tick w s))"
proof -
  define conns where "conns = erase (m_connections s) (unat (m_activeConnectionIdx s))"
  define s1 where "s1 = s\<lparr>m_connections := conns,
              m_connectionAttempt := 0,
              m_activeConnectionIdx :=
                (if length conns \<le> unat (m_activeConnectionIdx s) then 0
                 else m_activeConnectionIdx s),
              m_connectionSwitches := m_connectionSwitches s + 1\<rparr>"
  have len: "length conns = length (m_connections s) - 1"
    using assms(3) by (simp add: conns_def length_erase)
  have d: "discard_or_rotate s = Inr (s1, [client_unsetConnection])"
    using discard_unrecoverable [OF assms(3,4)] assms(3) len
    by (auto simp add: s1_def conns_def)
  have fields: "m_connections s1 = conns"
    "m_connectionSwitches s1 = m_connectionSwitches s + 1"
    by (simp_all add: s1_def)
  have in_range: "unat (m_activeConnectionIdx s1) < length (m_connections s1)"
    if "conns \<noteq> []"
    using that by (simp add: s1_def)
  have t: "\<exists>s' c. tick w s = Inr (s', suspendMining w @ [lock, client_unsetConnection] @ c) \<and>
        m_connections s' = conns \<and>
        m_activeConnectionIdx s' = m_activeConnectionIdx s1 \<and>
        m_connectionSwitches s' = m_connectionSwitches s + 1"
  proof (cases "conns = []")
    case True
    then show ?thesis
      using assms(1,2) d fields
      by (simp add: tick_def connect_or_exit_def no_more_connections_def)
  next
    case False
    then have "\<not> length (m_connections s1) \<le> unat (m_activeConnectionIdx s1)"
      using in_range by simp
    then show ?thesis
      using assms(1,2) d False fields
      by (simp add: tick_def connect_or_exit_def no_more_connections_def
          hashrate_reporting_def Let_def)
  qed
  have e: "tick w s =
          Inr (s1\<lparr>m_running := False\<rparr>,
               suspendMining w @ [lock, client_unsetConnection, unlock,
                 cnote [Txt ''No more connections to try. Exiting...'']] @
               (if isMining w then [cnote [Txt ''Shutting down miners...''], farm_stop] else []))"
    if "conns = []"
    using assms(1,2) d that fields
    by (simp add: tick_def connect_or_exit_def no_more_connections_def)
  have l: "workLoop (w # ws) s = tick w s" if "conns = []" and "m_running s"
    using workLoop_stops [OF that(2) e [OF that(1)]] e [OF that(1)] by simp
  show ?thesis
    unfolding Let_def conns_def [symmetric] s1_def [symmetric]
    using len d t e l by blast
qed

theorem tick_discards_unrecoverable_witness:
  "discard_or_rotate manager_only_dead_A =
     Inr (manager_only_dead_A\<lparr>m_connections := [], m_connectionAttempt := 0,
            m_connectionSwitches := 1\<rparr>, [client_unsetConnection]) \<and>
   tick world_down manager_only_dead_A =
     Inr (manager_only_dead_A\<lparr>m_connections := [], m_connectionAttempt := 0,
            m_connectionSwitches := 1, m_running := False\<rparr>,
          [farm_setWork None, cnote [Txt ''Suspend mining due connection change...''],
           lock, client_unsetConnection, unlock,
           cnote [Txt ''No more connections to try. Exiting...''],
           cnote [Txt ''Shutting down miners...''], farm_stop]) \<and>
   workLoop [world_down, world_down] manager_only_dead_A = tick world_down manager_only_dead_A \<and>
   discard_or_rotate manager_dead_A =
     Inr (manager_dead_A\<lparr>m_connections := [uri_B], m_connectionAttempt := 0,
            m_connectionSwitches := 1\<rparr>, [client_unsetConnection])"
  using tick_discards_unrecoverable [of world_down manager_only_dead_A "[world_down]"]
    tick_discards_unrecoverable [of world_down manager_dead_A "[]"]
  by (simp add: manager_only_dead_A_def manager_dead_A_def manager_AB_eq PoolManager_new_def
      uri_A_dead_def uri_A_def uri_B_def world_down_def tick_defs erase_def)

lemma rotate_exhausted:
  assumes "unat (m_activeConnectionIdx s) < length (m_connections s)"
    and "\<not> IsUnrecoverable (m_connections s ! unat (m_activeConnectionIdx s))"
    and "m_maxConnectionAttempts s \<le> m_connectionAttempt s"
  shows "discard_or_rotate s =
     Inr (s\<lparr>m_connectionAttempt := 0,
            m_activeConnectionIdx :=
              (if Suc (unat (m_activeConnectionIdx s)) < length (m_connections s)
               then m_activeConnectionIdx s + 1 else 0),
            m_connectionSwitches := m_connectionSwitches s + 1\<rparr>, [])"
proof (cases "Suc (unat (m_activeConnectionIdx s)) < length (m_connections s)")
  case True
  have "unat (m_activeConnectionIdx s + 1) \<le> unat (m_activeConnectionIdx s) + 1"
    by (simp add: unat_word_ariths)
  then have "\<not> length (m_connections s) \<le> unat (m_activeConnectionIdx s + 1)"
    using True by linarith
  then show ?thesis
    using assms True by (simp add: discard_or_rotate_def wrap_activeConnectionIdx_def Let_def)
next
  case False
  then have last: "Suc (unat (m_activeConnectionIdx s)) = length (m_connections s)"
    using assms(1) by linarith
  show ?thesis
  proof (cases "m_activeConnectionIdx s + 1 = 0")
    case True
    then show ?thesis
      using assms False
      by (simp add: discard_or_rotate_def wrap_activeConnectionIdx_def Let_def)
  next
    case wrap: False
    then have "unat (m_activeConnectionIdx s + 1) = Suc (unat (m_activeConnectionIdx s))"
      by (metis add.commute unatSuc)
    then show ?thesis
      using assms False last
      by (simp add: discard_or_rotate_def wrap_activeConnectionIdx_def Let_def)
  qed
qed

lemma next_index_mod:
  fixes i :: unsigned
  assumes "unat i < n" and "n < 2 ^ 32"
  shows "unat (if Suc (unat i) < n then i + 1 else 0) = Suc (unat i) mod n"
proof (cases "Suc (unat i) < n")
  case True
  then have "unat i + 1 < 2 ^ 32" using assms(2) by linarith
  then have "unat (i + 1) = unat i + 1"
    by (simp add: unat_word_ariths)
  then show ?thesis using True by simp
next
  case False
  then have "Suc (unat i) = n" using assms(1) by linarith
  then show ?thesis by simp
qed

text \<open>
  C3 (as amended): on a tick that finds the client neither pending nor connected, with
  the active index inside the registry and the active endpoint not unrecoverable, the
  manager rotates exactly when the attempt counter has reached the maximum: the attempt
  counter is set to 0, the active index moves to the next endpoint and from the last one
  to the first (the successor modulo the size of the registry), and the switch counter
  grows by one; below the maximum nothing changes before the attempt. With the endpoints
  \<open>A\<close> and \<open>B\<close>, three attempts and a client that never connects, the first three ticks
  are the three attempts on \<open>A\<close> (active index 0, no switch, attempt counter 3), and the
  fourth tick rotates: after it the active index is 1, the switch counter is 1, and the
  attempt counter, reset to 0 by the rotation, counts the first attempt on \<open>B\<close>.
\<close>

theorem rotation_after_max_attempts:
  "(unat (m_activeConnectionIdx s) < length (m_connections s) \<and>
    \<not> IsUnrecoverable (m_connections s ! unat (m_activeConnectionIdx s)) \<longrightarrow>
      (m_maxConnectionAttempts s \<le> m_connectionAttempt s \<longrightarrow>
         discard_or_rotate s =
           Inr (s\<lparr>m_connectionAttempt := 0,
                  m_activeConnectionIdx :=
                    (if Suc (unat (m_activeConnectionIdx s)) < length (m_connections s)
                     then m_activeConnectionIdx s + 1 else 0),
                  m_connectionSwitches := m_connectionSwitches s + 1\<rparr>, [])) \<and>
      (m_connectionAttempt s < m_maxConnectionAttempts s \<longrightarrow>
         discard_or_rotate s = Inr (s, [])) \<and>
      (length (m_connections s) < 2 ^ 32 \<longrightarrow>
         unat (if Suc (unat (m_activeConnectionIdx s)) < length (m_connections s)
               then m_activeConnectionIdx s + 1 else 0) =
         Suc (unat (m_activeConnectionIdx s)) mod length (m_connections s))) \<and>
   (case workLoop [world_down, world_down, world_down] manager_AB of
      Inl e \<Rightarrow> False
    | Inr (s3, c) \<Rightarrow>
        m_activeConnectionIdx s3 = 0 \<and> m_connectionSwitches s3 = 0 \<and> m_connectionAttempt s3 = 3) \<and>
   (case workLoop [world_down, world_down, world_down, world_down] manager_AB of
      Inl e \<Rightarrow> False
    | Inr (s4, c) \<Rightarrow>
        m_activeConnectionIdx s4 = 1 \<and> m_connectionSwitches s4 = 1 \<and> m_connectionAttempt s4 = 1)"
proof -
  have three: "(case workLoop [world_down, world_down, world_down] manager_AB of
      Inl e \<Rightarrow> False
    | Inr (s3, c) \<Rightarrow>
        m_activeConnectionIdx s3 = 0 \<and> m_connectionSwitches s3 = 0 \<and> m_connectionAttempt s3 = 3)"
    by (simp add: manager_AB_eq PoolManager_new_def tick_defs world_down_def uri_A_def uri_B_def
        Let_def word_le_nat_alt word_less_nat_alt)
  have four: "(case workLoop [world_down, world_down, world_down, world_down] manager_AB of
      Inl e \<Rightarrow> False
    | Inr (s4, c) \<Rightarrow>
        m_activeConnectionIdx s4 = 1 \<and> m_connectionSwitches s4 = 1 \<and> m_connectionAttempt s4 = 1)"
    by (simp add: manager_AB_eq PoolManager_new_def tick_defs world_down_def uri_A_def uri_B_def
        Let_def word_le_nat_alt word_less_nat_alt)
  have stay: "discard_or_rotate s = Inr (s, [])"
    if "unat (m_activeConnectionIdx s) < length (m_connections s)"
      and "\<not> IsUnrecoverable (m_connections s ! unat (m_activeConnectionIdx s))"
      and "m_connectionAttempt s < m_maxConnectionAttempts s"
  proof -
    have "\<not> m_maxConnectionAttempts s \<le> m_connectionAttempt s"
      using that(3) by (simp add: not_le)
    then show ?thesis
      using that(1,2) by (simp add: discard_or_rotate_def)
  qed
  show ?thesis
    using three four stay rotate_exhausted [of s]
      next_index_mod [of "m_activeConnectionIdx s" "length (m_connections s)"]
    by blast
qed

theorem rotation_after_max_attempts_witness:
  "discard_or_rotate manager_AB = Inr (manager_AB, []) \<and>
   discard_or_rotate (manager_AB\<lparr>m_connectionAttempt := 3\<rparr>) =
     Inr (manager_AB\<lparr>m_connectionAttempt := 0, m_activeConnectionIdx := 1,
            m_connectionSwitches := 1\<rparr>, []) \<and>
   discard_or_rotate (manager_on_B\<lparr>m_connectionAttempt := 3\<rparr>) =
     Inr (manager_on_B\<lparr>m_connectionAttempt := 0, m_activeConnectionIdx := 0,
            m_connectionSwitches := 2\<rparr>, [])"
  using rotation_after_max_attempts [of manager_AB]
    rotation_after_max_attempts [of "manager_AB\<lparr>m_connectionAttempt := 3\<rparr>"]
    rotation_after_max_attempts [of "manager_on_B\<lparr>m_connectionAttempt := 3\<rparr>"]
  by (simp add: manager_AB_eq manager_on_B_eq PoolManager_new_def uri_A_def uri_B_def
      word_le_nat_alt word_less_nat_alt)

text \<open>
  The claim C3 as it was stated: after three ticks that find the client disconnected the
  active index would be 1 and the switch counter 1. After these three ticks the manager is
  still on \<open>A\<close>: the active index is 0 and the switch counter is 0.
\<close>

theorem three_ticks_counterexample:
  "(case workLoop [world_down, world_down, world_down] manager_AB of
      Inl e \<Rightarrow> False
    | Inr (s3, c) \<Rightarrow>
        m_activeConnectionIdx s3 = 0 \<and> m_activeConnectionIdx s3 \<noteq> 1 \<and>
        m_connectionSwitches s3 = 0 \<and> m_connectionSwitches s3 \<noteq> 1)"
  by (simp add: manager_AB_eq PoolManager_new_def tick_defs world_down_def uri_A_def uri_B_def
      Let_def word_le_nat_alt word_less_nat_alt)

subsection \<open>The hash rate report\<close>

lemma hex_digits_all:
  "\<forall>d\<in>{..<16::nat}. hexval (digit_char d) = d \<and> digit_char d \<in> set ''0123456789abcdef''"
  by (simp add: lessThan_nat_numeral lessThan_Suc hexval_def digit_char_def)

lemma hexval_digit_char: "d < 16 \<Longrightarrow> hexval (digit_char d) = d"
  using hex_digits_all by blast

lemma digit_char_hex: "d < 16 \<Longrightarrow> digit_char d \<in> set ''0123456789abcdef''"
  using hex_digits_all by blast

lemma hex_value_snoc: "hex_value (ds @ [c]) = 16 * hex_value ds + hexval c"
  by (simp add: hex_value_def)

lemma hex_value_zero: "hex_value (CHR ''0'' # ds) = hex_value ds"
  by (simp add: hex_value_def hexval_def)

lemma hex_value_fill: "hex_value (replicate m (CHR ''0'') @ ds) = hex_value ds"
  by (induction m) (simp_all add: hex_value_zero)

lemma toHex_snoc:
  "toHex (bs @ [b]) = toHex bs @ [digit_char (unat b div 16), digit_char (unat b mod 16)]"
  by (simp add: toHex_def)

lemma length_toHex: "length (toHex bs) = 2 * length bs"
  by (induction bs) (simp_all add: toHex_def)

lemma length_toBigEndian: "length (toBigEndian k n) = k"
  by (induction k arbitrary: n) simp_all

lemma unat_byte: "unat (b :: 8 word) < 256"
  using unsigned_less [of b] by simp

lemma set_toHex: "set (toHex bs) \<subseteq> set ''0123456789abcdef''"
proof (induction bs)
  case Nil
  show ?case by (simp add: toHex_def)
next
  case (Cons b bs)
  have hi: "unat b div 16 < 16" using unat_byte [of b] by simp
  have lo: "unat b mod 16 < 16" by simp
  have "toHex (b # bs) = [digit_char (unat b div 16), digit_char (unat b mod 16)] @ toHex bs"
    by (simp add: toHex_def)
  then show ?case
    using Cons digit_char_hex [OF hi] digit_char_hex [OF lo] by simp
qed

lemma div_256_less: "n < 256 ^ Suc k \<Longrightarrow> n div 256 < (256::nat) ^ k"
  by (simp add: less_mult_imp_div_less mult.commute)

lemma byte_digits: "16 * (16 * (n div 256) + n mod 256 div 16) + n mod 256 mod 16 = (n::nat)"
proof -
  have aux: "16 * (16 * a + c) + d = 256 * a + (16 * c + d)" for a c d :: nat
    by simp
  show ?thesis
    by (simp only: aux mult_div_mod_eq)
qed

lemma hex_value_toBigEndian: "n < 256 ^ k \<Longrightarrow> hex_value (toHex (toBigEndian k n)) = n"
proof (induction k arbitrary: n)
  case 0
  then show ?case by (simp add: toHex_def hex_value_def)
next
  case (Suc k)
  let ?b = "of_nat (n mod 256) :: 8 word"
  let ?h = "toHex (toBigEndian k (n div 256))"
  have b: "unat ?b = n mod 256" by (simp add: unat_of_nat)
  have ih: "hex_value ?h = n div 256"
    using Suc.prems by (intro Suc.IH div_256_less)
  have hi: "hexval (digit_char (n mod 256 div 16)) = n mod 256 div 16"
    by (rule hexval_digit_char) simp
  have lo: "hexval (digit_char (n mod 256 mod 16)) = n mod 256 mod 16"
    by (rule hexval_digit_char) simp
  have "toHex (toBigEndian (Suc k) n) =
      (?h @ [digit_char (n mod 256 div 16)]) @ [digit_char (n mod 256 mod 16)]"
    by (simp only: toBigEndian.simps toHex_snoc b append_assoc append_Cons append_Nil)
  then have "hex_value (toHex (toBigEndian (Suc k) n)) =
      16 * (16 * (n div 256) + n mod 256 div 16) + n mod 256 mod 16"
    by (simp only: hex_value_snoc ih hi lo)
  then show ?case by (simp only: byte_digits)
qed

lemma byte_length_le: "n < 256 ^ k \<Longrightarrow> byte_length n \<le> k"
proof (induction k arbitrary: n)
  case 0
  then show ?case by (simp add: byte_length.simps)
next
  case (Suc k)
  have "byte_length (n div 256) \<le> k"
    using Suc.prems by (intro Suc.IH div_256_less)
  then show ?case by (subst byte_length.simps) simp
qed

lemma less_byte_length: "n < 256 ^ byte_length n"
proof (induction n rule: byte_length.induct)
  case (1 v)
  show ?case
  proof (cases "v = 0")
    case True
    then show ?thesis by (simp add: byte_length.simps)
  next
    case False
    then have "v div 256 < 256 ^ byte_length (v div 256)" by (rule "1.IH")
    then have "v < 256 * 256 ^ byte_length (v div 256)"
      by (simp add: div_less_iff_less_mult mult.commute)
    moreover have "byte_length v = Suc (byte_length (v div 256))"
      using False by (subst byte_length.simps) simp
    ultimately show ?thesis by simp
  qed
qed

lemma replicate_numeral: "replicate (numeral k) x = x # replicate (pred_numeral k) x"
  by (simp add: numeral_eq_Suc)

lemma strip_leading_zero_facts:
  "hex_value (strip_leading_zero h) = hex_value h \<and>
   length (strip_leading_zero h) \<le> length h \<and>
   set (strip_leading_zero h) \<subseteq> set h"
  by (cases h) (auto simp add: strip_leading_zero_def hex_value_zero)

lemma compact_hex:
  fixes v :: uint64_t
  defines "h \<equiv> toHex (toCompactBigEndian v 1)"
  shows "hex_value h = unat v \<and> length h \<le> 16 \<and> set h \<subseteq> set ''0123456789abcdef''"
proof -
  let ?n = "unat v"
  let ?k = "max 1 (byte_length ?n)"
  have "?n < 2 ^ 64" using unsigned_less [of v] by simp
  then have n: "?n < 256 ^ 8" by simp
  have k8: "?k \<le> 8" using byte_length_le [OF n] by simp
  have "?n < 256 ^ byte_length ?n" by (rule less_byte_length)
  also have "\<dots> \<le> 256 ^ ?k" by (intro power_increasing) simp_all
  finally have "hex_value (toHex (toBigEndian ?k ?n)) = ?n" by (rule hex_value_toBigEndian)
  then have "hex_value h = unat v" by (simp add: h_def toCompactBigEndian_def)
  moreover have "length h \<le> 16"
    using k8 by (simp add: h_def toCompactBigEndian_def length_toHex length_toBigEndian)
  moreover have "set h \<subseteq> set ''0123456789abcdef''"
    unfolding h_def by (rule set_toHex)
  ultimately show ?thesis by blast
qed

text \<open>
  C8: when the reporting interval has passed (the counter, advanced by this tick, is above
  \<^verbatim>\<open>m_hashrateReportingTime\<close>), the tick submits \<open>hashrate_string\<close> of the farm's hash rate
  and resets the counter. For every 64-bit hash rate \<open>v\<close> that string is \<open>0x\<close> followed by
  exactly 64 characters, each a lowercase hexadecimal digit, which read as a number, most
  significant digit first, are \<open>v\<close>.
\<close>

theorem hashrate_string_format:
  "(m_hashrateReportingTime s < m_hashrateReportingTimePassed s + 1 \<longrightarrow>
      hashrate_reporting w s =
        (s\<lparr>m_hashrateReportingTimePassed := 0\<rparr>,
         [client_submitHashrate (hashrate_string (hashRate w)), sleep_for_seconds 1])) \<and>
   (\<exists>ds. hashrate_string v = ''0x'' @ ds \<and> length ds = 64 \<and>
      set ds \<subseteq> set ''0123456789abcdef'' \<and> hex_value ds = unat v)"
proof -
  let ?h = "toHex (toCompactBigEndian v 1)"
  let ?res = "strip_leading_zero ?h"
  let ?ds = "setw_setfill 64 (CHR ''0'') ?res"
  have s: "hashrate_string v = ''0x'' @ ?ds"
    by (simp add: hashrate_string_def Let_def)
  have len: "length ?res \<le> 16"
    using compact_hex [of v] strip_leading_zero_facts [of ?h] by linarith
  then have l: "length ?ds = 64" by (simp add: setw_setfill_def)
  have "set ?res \<subseteq> set ''0123456789abcdef''"
    using compact_hex [of v] strip_leading_zero_facts [of ?h] by blast
  then have h: "set ?ds \<subseteq> set ''0123456789abcdef''"
    by (auto simp add: setw_setfill_def)
  have "hex_value ?ds = hex_value ?res" by (simp add: setw_setfill_def hex_value_fill)
  then have v: "hex_value ?ds = unat v"
    using compact_hex [of v] strip_leading_zero_facts [of ?h] by simp
  have r: "hashrate_reporting w s =
        (s\<lparr>m_hashrateReportingTimePassed := 0\<rparr>,
         [client_submitHashrate (hashrate_string (hashRate w)), sleep_for_seconds 1])"
    if "m_hashrateReportingTime s < m_hashrateReportingTimePassed s + 1"
    using that by (simp add: hashrate_reporting_def)
  show ?thesis using s l h v r by blast
qed

theorem hashrate_string_format_witness:
  "hashrate_reporting world_up (manager_AB\<lparr>m_hashrateReportingTimePassed := 60\<rparr>) =
     (manager_AB\<lparr>m_hashrateReportingTimePassed := 0\<rparr>,
      [client_submitHashrate ''0x0000000000000000000000000000000000000000000000000000000000001234'',
       sleep_for_seconds 1]) \<and>
   hashrate_string 0x0fab = ''0x0000000000000000000000000000000000000000000000000000000000000fab'' \<and>
   hashrate_string 0 = ''0x0000000000000000000000000000000000000000000000000000000000000000'' \<and>
   hashrate_string 0xffffffffffffffff =
     ''0x000000000000000000000000000000000000000000000000ffffffffffffffff''"
  using hashrate_string_format [where s = "manager_AB\<lparr>m_hashrateReportingTimePassed := 60\<rparr>"
      and w = world_up and v = "0x1234"]
  by (simp add: manager_AB_eq PoolManager_new_def world_up_def hashrate_string_def toHex_def
      toCompactBigEndian_def byte_length.simps strip_leading_zero_def setw_setfill_def
      digit_char_def replicate_numeral word_less_nat_alt)

subsection \<open>The difficulty\<close>

lemma bit_length_le: "n < 2 ^ k \<Longrightarrow> bit_length n \<le> k"
proof (induction k arbitrary: n)
  case 0
  then show ?case by (simp add: bit_length.simps)
next
  case (Suc k)
  have "n div 2 < 2 ^ k" using Suc.prems by simp
  then have "bit_length (n div 2) \<le> k" by (rule Suc.IH)
  then show ?case by (subst bit_length.simps) simp
qed

lemma bit_length_one: "bit_length 1 = 1"
  by (simp add: bit_length.simps)

lemma round_half_even_of_int: "round_half_even (of_int m) = m"
  by (simp add: round_half_even_def)

lemma ilog2_of_nat_le: "ilog2 (of_nat n) \<le> int (bit_length (int n)) - 1"
proof -
  have "(of_nat n :: rat) = Fract (int n) 1"
    by (metis of_int_of_nat_eq of_int_rat)
  then have "quotient_of (of_nat n :: rat) = (int n, 1)"
    by (simp add: quotient_of_Fract Rat.normalize_def Let_def)
  then show ?thesis
    by (simp add: ilog2_def Let_def bit_length_one)
qed

lemma scale_back:
  fixes e :: int
  assumes "e \<le> 0"
  shows "(q::rat) / 2 powi e = q * 2 ^ nat (- e)" and "q * 2 ^ nat (- e) * 2 powi e = q"
  using assms by (simp_all add: power_int_def field_simps)

text \<open>An integer below \<open>2 ^ 53\<close> is a double: its conversion is exact.\<close>

lemma double_of_uint256_exact:
  assumes "n < 2 ^ 53"
  shows "double_of_uint256 n = of_nat n"
proof (cases "n = 0")
  case True
  then show ?thesis by (simp add: double_of_uint256_def round_binary64_def)
next
  case False
  define e where "e = max (ilog2 \<bar>of_nat n\<bar> - 52) (- 1074)"
  have "int n < 2 ^ 53" using assms by (metis of_nat_less_numeral_power_cancel_iff)
  then have "bit_length (int n) \<le> 53" by (rule bit_length_le)
  then have "ilog2 (of_nat n) \<le> 52" using ilog2_of_nat_le [of n] by linarith
  then have e0: "e \<le> 0" by (simp add: e_def)
  have "(of_nat n :: rat) / 2 powi e = of_int (int n * 2 ^ nat (- e))"
    using scale_back(1) [OF e0] by simp
  then have "round_half_even ((of_nat n :: rat) / 2 powi e) = int n * 2 ^ nat (- e)"
    by (simp only: round_half_even_of_int)
  then have "of_int (round_half_even ((of_nat n :: rat) / 2 powi e)) * 2 powi e = (of_nat n :: rat)"
    using scale_back(2) [OF e0, of "of_nat n"] by simp
  then show ?thesis
    using False by (simp add: double_of_uint256_def round_binary64_def Let_def e_def)
qed

lemma quotient_1: "dividend div unat boundary_1 = 4294967296"
  by (simp add: dividend_def boundary_1_def)

lemma double_1: "double_of_uint256 4294967296 = 4294967296"
  using double_of_uint256_exact [of 4294967296] by simp

lemma string_1: "fixed_setprecision2 (fdiv 4294967296 1000000000) = ''4.29''"
  by code_simp

text \<open>
  C5 (as amended): on a work package whose boundary is not zero and differs from
  \<^verbatim>\<open>m_lastBoundary\<close>, the handler stores the boundary, sets \<^verbatim>\<open>m_lastDifficulty\<close> to the
  integer quotient of \<open>0xffff\<close> shifted left by 240 bits and the boundary, converted to a
  double (the quotient itself when it is below \<open>2 ^ 53\<close>), and logs that difficulty divided
  by \<open>1e9\<close> with two decimals, followed by \<open>K megahash\<close>. For the boundary of difficulty
  1 the difficulty is exactly \<open>2 ^ 32\<close> and the logged string is \<open>4.29K megahash\<close>.
\<close>

theorem onWorkReceived_difficulty:
  "(boundary wp \<noteq> m_lastBoundary s \<and> boundary wp \<noteq> 0 \<longrightarrow>
      (\<exists>s' c. onWorkReceived w wp s = Inr (s', c) \<and>
         m_lastBoundary s' = boundary wp \<and>
         m_lastDifficulty s' = double_of_uint256 (dividend div unat (boundary wp)) \<and>
         (dividend div unat (boundary wp) < 2 ^ 53 \<longrightarrow>
            m_lastDifficulty s' = of_nat (dividend div unat (boundary wp))) \<and>
         cnote [Txt ''Pool difficulty: '', Esc EthWhite,
                Txt (fixed_setprecision2 (fdiv (m_lastDifficulty s') 1000000000) @ ''K megahash''),
                Esc EthReset] \<in> set c)) \<and>
   dividend = push_bit 240 0xffff \<and>
   double_of_uint256 (dividend div unat boundary_1) = 2 ^ 32 \<and>
   fixed_setprecision2 (fdiv (2 ^ 32) 1000000000) @ ''K megahash'' = ''4.29K megahash''"
proof -
  have g: "\<exists>s' c. onWorkReceived w wp s = Inr (s', c) \<and>
         m_lastBoundary s' = boundary wp \<and>
         m_lastDifficulty s' = double_of_uint256 (dividend div unat (boundary wp)) \<and>
         (dividend div unat (boundary wp) < 2 ^ 53 \<longrightarrow>
            m_lastDifficulty s' = of_nat (dividend div unat (boundary wp))) \<and>
         cnote [Txt ''Pool difficulty: '', Esc EthWhite,
                Txt (fixed_setprecision2 (fdiv (m_lastDifficulty s') 1000000000) @ ''K megahash''),
                Esc EthReset] \<in> set c"
    if "boundary wp \<noteq> m_lastBoundary s" and "boundary wp \<noteq> 0"
  proof -
    have "unat (boundary wp) \<noteq> 0" using that(2) by (simp add: unat_eq_0)
    then show ?thesis
      using that(1) by (simp add: onWorkReceived_def Let_def double_of_uint256_exact)
  qed
  have d: "dividend = push_bit 240 0xffff"
    by (simp add: dividend_def push_bit_eq_mult)
  have q: "double_of_uint256 (dividend div unat boundary_1) = 2 ^ 32"
    by (simp add: quotient_1 double_1)
  have "fixed_setprecision2 (fdiv (2 ^ 32) 1000000000) = ''4.29''"
    using string_1 by simp
  then have t: "fixed_setprecision2 (fdiv (2 ^ 32) 1000000000) @ ''K megahash'' = ''4.29K megahash''"
    by simp
  show ?thesis using g d q t by blast
qed

theorem onWorkReceived_difficulty_witness:
  "boundary work_1 \<noteq> m_lastBoundary manager_AB \<and>
   boundary work_1 \<noteq> 0 \<and>
   onWorkReceived world_up work_1 manager_AB =
     Inr (manager_AB\<lparr>m_lastBoundary := boundary_1, m_lastDifficulty := 4294967296\<rparr>,
          [cnote [Txt ''Job: '', Esc EthWhite, Txt ''#'', Abridged 0x1f, Esc EthReset,
                  Txt '' '', Txt [], Txt []],
           cnote [Txt ''Pool difficulty: '', Esc EthWhite, Txt ''4.29K megahash'', Esc EthReset],
           farm_setWork (Some work_1)])"
proof -
  have b: "boundary work_1 \<noteq> m_lastBoundary manager_AB \<and> boundary work_1 \<noteq> 0"
    by (simp add: work_1_def boundary_1_def manager_AB_eq PoolManager_new_def)
  have e: "epoch work_1 = m_lastEpoch manager_AB"
    by (simp add: work_1_def manager_AB_eq PoolManager_new_def)
  have f: "m_lastConnectedHost manager_AB = [] \<and> ActiveEndPoint world_up = [] \<and>
      header work_1 = 0x1f \<and> boundary work_1 = boundary_1"
    by (simp add: work_1_def manager_AB_eq PoolManager_new_def world_up_def)
  show ?thesis
    using onWorkReceived_difficulty [of work_1 manager_AB world_up] b e f
    by (simp add: onWorkReceived_def Let_def quotient_1 double_1 string_1 unat_eq_0)
qed

text \<open>
  The claim C5 as it was stated covers every boundary that differs from the last one.
  After the work package of difficulty 1, a work package with the boundary zero differs
  from the last boundary, and the handler fails in the division instead of setting a
  difficulty.
\<close>

theorem onWorkReceived_zero_boundary_counterexample:
  "(case onWorkReceived world_up work_1 manager_AB of
      Inl e \<Rightarrow> False
    | Inr (s1, c) \<Rightarrow>
        boundary work_0 \<noteq> m_lastBoundary s1 \<and>
        onWorkReceived world_up work_0 s1 = Inl overflow_error)"
proof -
  have b: "boundary work_1 \<noteq> m_lastBoundary manager_AB \<and> unat (boundary work_1) \<noteq> 0"
    by (simp add: work_1_def boundary_1_def manager_AB_eq PoolManager_new_def)
  have z: "boundary work_0 = 0 \<and> boundary work_1 \<noteq> 0"
    by (simp add: work_0_def work_1_def boundary_1_def)
  show ?thesis
    using b z by (simp add: onWorkReceived_def Let_def)
qed

end
